theory Spec2Isabelle
  imports Main
begin

section \<open>Program state, outcomes and sequencing\<close>

text \<open>
  The program is the single file \<^verbatim>\<open>code-examples-code-conventions.cpp\<close>: a handful of
  global helper functions, ten namespaces \<^verbatim>\<open>Rule1_Naming\<close> .. \<^verbatim>\<open>Rule10_Namespaces\<close> with one
  or two small functions each, and \<^verbatim>\<open>main\<close>.

  Every function is embedded as a state transformer on a record \<open>world\<close> that holds what the
  functions can touch: the bytes sent to \<^verbatim>\<open>std::cout\<close> and \<^verbatim>\<open>std::cerr\<close>, the free store
  (the addresses of the live \<^verbatim>\<open>User\<close> objects), the \<^verbatim>\<open>std::string\<close> objects that a reference
  may designate, the global mutex \<^verbatim>\<open>Rule5_RAII::m\<close> and the global
  \<^verbatim>\<open>Rule1_Naming::days_since_creation\<close>. The field \<open>trace\<close> is a call log: every helper
  function appends its own event on entry, and the \<^verbatim>\<open>catch\<close> handler appends
  \<open>Entered_catch\<close>; it exists only so that "which function was invoked" can be stated.
\<close>

datatype exn = Std_exception string | Foreign_exception

text \<open>
  A call ends normally with a value, or by a propagated exception, or is undefined
  (locking a \<^verbatim>\<open>std::mutex\<close> the thread already owns, unlocking one it does not own,
  deleting what is not allocated). \<open>Std_exception what\<close> is an exception of a class derived
  from \<^verbatim>\<open>std::exception\<close> with its \<^verbatim>\<open>what()\<close> text; \<open>Foreign_exception\<close> is any other
  thrown object.
\<close>

datatype 'a outcome = Ok 'a | Throw exn | Undefined

datatype event =
    Called_error
  | Called_func
  | Called_do_other
  | Called_calculate
  | Called_func_overload_int
  | Called_func_overload_char_ptr
  | Called_process_data
  | Entered_catch

record world =
  cout :: string
  cerr :: string
  heap :: "nat list"
  strings :: "nat \<Rightarrow> string"
  Rule5_RAII_m :: bool
  Rule1_Naming_days_since_creation :: int
  trace :: "event list"

type_synonym 'a comp = "world \<Rightarrow> 'a outcome \<times> world"

text \<open>The state after static initialisation, before \<^verbatim>\<open>main\<close> is entered.\<close>

definition initial_world :: world where
  "initial_world =
     \<lparr>cout = [], cerr = [], heap = [], strings = (\<lambda>_. []), Rule5_RAII_m = False,
      Rule1_Naming_days_since_creation = 0, trace = []\<rparr>"

definition ret :: "'a \<Rightarrow> 'a comp" where
  "ret a w = (Ok a, w)"

text \<open>
  Sequencing of two statements: the second runs only when the first ended normally; the
  state changes of a statement that throws are kept.
\<close>

definition seq :: "'a comp \<Rightarrow> ('a \<Rightarrow> 'b comp) \<Rightarrow> 'b comp" where
  "seq c f w =
     (case c w of
        (Ok a, w1) \<Rightarrow> f a w1
      | (Throw e, w1) \<Rightarrow> (Throw e, w1)
      | (Undefined, w1) \<Rightarrow> (Undefined, w1))"

text \<open>
  A local object with a destructor: the destructor runs when the enclosed statements leave
  the scope, by falling off the end, by \<^verbatim>\<open>return\<close> or by an exception.
\<close>

definition at_scope_exit :: "'a comp \<Rightarrow> unit comp \<Rightarrow> 'a comp" where
  "at_scope_exit body dtor w =
     (case body w of
        (Undefined, w1) \<Rightarrow> (Undefined, w1)
      | (r, w1) \<Rightarrow>
          (case dtor w1 of
             (Ok u, w2) \<Rightarrow> (r, w2)
           | (Throw e, w2) \<Rightarrow> (Throw e, w2)
           | (Undefined, w2) \<Rightarrow> (Undefined, w2)))"

text \<open>
  \<^verbatim>\<open>try { body } catch (const std::exception& e) { handler(e.what()) }\<close>: only exceptions
  derived from \<^verbatim>\<open>std::exception\<close> are caught.
\<close>

definition try_catch_std_exception :: "'a comp \<Rightarrow> (string \<Rightarrow> 'a comp) \<Rightarrow> 'a comp" where
  "try_catch_std_exception body handler w =
     (case body w of
        (Throw (Std_exception what), w1) \<Rightarrow>
          handler what (w1\<lparr>trace := trace w1 @ [Entered_catch]\<rparr>)
      | (r, w1) \<Rightarrow> (r, w1))"

definition log_call :: "event \<Rightarrow> unit comp" where
  "log_call e w = (Ok (), w\<lparr>trace := trace w @ [e]\<rparr>)"

subsection \<open>Streams, free store, mutex\<close>

definition cout_write :: "string \<Rightarrow> unit comp" where
  "cout_write s w = (Ok (), w\<lparr>cout := cout w @ s\<rparr>)"

definition cerr_write :: "string \<Rightarrow> unit comp" where
  "cerr_write s w = (Ok (), w\<lparr>cerr := cerr w @ s\<rparr>)"

text \<open>\<^verbatim>\<open>std::endl\<close> writes a newline and flushes.\<close>

definition endl :: string where
  "endl = [CHR 0x0A]"

text \<open>
  \<^verbatim>\<open>new User()\<close> returns an address that is not live; the free store is unbounded, so the
  allocation does not fail.
\<close>

definition fresh_addr :: "nat list \<Rightarrow> nat" where
  "fresh_addr as = Suc (Max (set (0 # as)))"

definition new_User :: "nat comp" where
  "new_User w = (let u = fresh_addr (heap w) in (Ok u, w\<lparr>heap := u # heap w\<rparr>))"

definition delete_User :: "nat \<Rightarrow> unit comp" where
  "delete_User u w =
     (if u \<in> set (heap w) then (Ok (), w\<lparr>heap := removeAll u (heap w)\<rparr>)
      else (Undefined, w))"

definition mutex_lock :: "unit comp" where
  "mutex_lock w =
     (if Rule5_RAII_m w then (Undefined, w) else (Ok (), w\<lparr>Rule5_RAII_m := True\<rparr>))"

definition mutex_unlock :: "unit comp" where
  "mutex_unlock w =
     (if Rule5_RAII_m w then (Ok (), w\<lparr>Rule5_RAII_m := False\<rparr>) else (Undefined, w))"

section \<open>The helper definitions\<close>

text \<open>\<^verbatim>\<open>bool error() { return false; }\<close>\<close>

definition error :: "bool comp" where
  "error = seq (log_call Called_error) (\<lambda>_. ret False)"

text \<open>\<^verbatim>\<open>void func() {}\<close> and \<^verbatim>\<open>void do_other() {}\<close>\<close>

definition func :: "unit comp" where
  "func = log_call Called_func"

definition do_other :: "unit comp" where
  "do_other = log_call Called_do_other"

text \<open>\<^verbatim>\<open>int calculate() { return 10; }\<close>\<close>

definition calculate :: "int comp" where
  "calculate = seq (log_call Called_calculate) (\<lambda>_. ret 10)"

text \<open>
  The two overloads of \<^verbatim>\<open>func_overload\<close>. A \<^verbatim>\<open>char*\<close> is \<open>None\<close> (null) or an address.
\<close>

definition func_overload_int :: "int \<Rightarrow> unit comp" where
  "func_overload_int n =
     seq (log_call Called_func_overload_int) (\<lambda>_. cout_write (''Called func(int)'' @ [CHR 0x0A]))"

definition func_overload_char_ptr :: "nat option \<Rightarrow> unit comp" where
  "func_overload_char_ptr p =
     seq (log_call Called_func_overload_char_ptr)
       (\<lambda>_. cout_write (''Called func(char*)'' @ [CHR 0x0A]))"

subsection \<open>Which overload a call names\<close>

text \<open>
  The source declares two functions named \<^verbatim>\<open>func_overload\<close>, in this order, with one
  parameter each: \<^verbatim>\<open>int\<close> (line 18) and \<^verbatim>\<open>char*\<close> (line 19). They are the candidates of
  every call \<^verbatim>\<open>func_overload(arg)\<close>.
\<close>

datatype cpp_type = Int_type | Char_ptr_type | Nullptr_t_type

datatype overload = Overload_int | Overload_char_ptr

fun parameter_type :: "overload \<Rightarrow> cpp_type" where
  "parameter_type Overload_int = Int_type"
| "parameter_type Overload_char_ptr = Char_ptr_type"

definition func_overload_candidates :: "overload list" where
  "func_overload_candidates = [Overload_int, Overload_char_ptr]"

text \<open>
  The argument expressions: an \<^verbatim>\<open>int\<close> expression, the integer literal \<^verbatim>\<open>0\<close>, a
  \<^verbatim>\<open>char*\<close> expression, and \<^verbatim>\<open>nullptr\<close>, the one the source passes (line 174). The
  literal \<^verbatim>\<open>0\<close> has type \<^verbatim>\<open>int\<close> and \<^verbatim>\<open>nullptr\<close> has type \<^verbatim>\<open>std::nullptr_t\<close>; both are
  null pointer constants.
\<close>

datatype argument = Int_arg int | Zero_literal | Char_ptr_arg "nat option" | Nullptr_literal

fun argument_type :: "argument \<Rightarrow> cpp_type" where
  "argument_type (Int_arg n) = Int_type"
| "argument_type Zero_literal = Int_type"
| "argument_type (Char_ptr_arg p) = Char_ptr_type"
| "argument_type Nullptr_literal = Nullptr_t_type"

fun is_null_pointer_constant :: "argument \<Rightarrow> bool" where
  "is_null_pointer_constant (Int_arg n) = False"
| "is_null_pointer_constant Zero_literal = True"
| "is_null_pointer_constant (Char_ptr_arg p) = False"
| "is_null_pointer_constant Nullptr_literal = True"

text \<open>
  The implicit conversion of an argument to a parameter type, with its rank, where there
  is one: the identity is an exact match; a null pointer constant converts to a pointer type
  (the null pointer conversion, of rank conversion); nothing else converts, in particular
  \<^verbatim>\<open>std::nullptr_t\<close> converts to no integer type, and neither does an \<^verbatim>\<open>int\<close> expression to
  a pointer nor a pointer to \<^verbatim>\<open>int\<close>.
\<close>

datatype conversion_rank = Exact_match | Conversion

definition implicit_conversion :: "argument \<Rightarrow> cpp_type \<Rightarrow> conversion_rank option" where
  "implicit_conversion a t =
     (if argument_type a = t then Some Exact_match
      else if t = Char_ptr_type \<and> is_null_pointer_constant a then Some Conversion
      else None)"

fun better_rank :: "conversion_rank \<Rightarrow> conversion_rank \<Rightarrow> bool" where
  "better_rank Exact_match Conversion = True"
| "better_rank r s = False"

text \<open>A candidate is viable for an argument that converts to its parameter type.\<close>

definition is_viable :: "argument \<Rightarrow> overload \<Rightarrow> bool" where
  "is_viable a f = (case implicit_conversion a (parameter_type f) of None \<Rightarrow> False | Some r \<Rightarrow> True)"

definition viable_candidates :: "argument \<Rightarrow> overload list" where
  "viable_candidates a = filter (is_viable a) func_overload_candidates"

text \<open>
  \<open>f\<close> is a better function than \<open>g\<close> for the argument when its conversion has the better
  rank. The call names the viable candidate that is better than every other viable one; when
  there is no such candidate, or no viable candidate at all, the call is ill-formed.
\<close>

definition better_function :: "argument \<Rightarrow> overload \<Rightarrow> overload \<Rightarrow> bool" where
  "better_function a f g =
     (case (implicit_conversion a (parameter_type f), implicit_conversion a (parameter_type g)) of
        (Some r, Some s) \<Rightarrow> better_rank r s
      | _ \<Rightarrow> False)"

definition beats_all_others :: "argument \<Rightarrow> overload list \<Rightarrow> overload \<Rightarrow> bool" where
  "beats_all_others a fs f = list_all (\<lambda>g. if g = f then True else better_function a f g) fs"

definition best_viable_function :: "argument \<Rightarrow> overload option" where
  "best_viable_function a =
     (case filter (beats_all_others a (viable_candidates a)) (viable_candidates a) of
        [f] \<Rightarrow> Some f
      | _ \<Rightarrow> None)"

text \<open>
  The call \<^verbatim>\<open>func_overload(arg)\<close>: the selected overload runs on the converted argument
  (a null pointer constant converts to the null pointer). An ill-formed call is not a
  program and has no behaviour.
\<close>

definition func_overload :: "argument \<Rightarrow> unit comp" where
  "func_overload a =
     (case best_viable_function a of
        Some Overload_int \<Rightarrow> func_overload_int (case a of Int_arg n \<Rightarrow> n | _ \<Rightarrow> 0)
      | Some Overload_char_ptr \<Rightarrow> func_overload_char_ptr (case a of Char_ptr_arg p \<Rightarrow> p | _ \<Rightarrow> None)
      | None \<Rightarrow> (\<lambda>w. (Undefined, w)))"

section \<open>The ten rules\<close>

subsection \<open>Rule 1: naming\<close>

text \<open>
  \<^verbatim>\<open>int days_since_creation = 0;\<close> is the field of \<open>initial_world\<close>;
  \<^verbatim>\<open>class AccountManager { int balance_amount = 0; };\<close> is a record with its default
  member initialiser.
\<close>

record AccountManager =
  balance_amount :: int

definition AccountManager_init :: AccountManager where
  "AccountManager_init = \<lparr>balance_amount = 0\<rparr>"

subsection \<open>Rule 2: code structure\<close>

definition Rule2_Structure_example :: "bool \<Rightarrow> unit comp" where
  "Rule2_Structure_example x = (if x then seq func (\<lambda>_. ret ()) else do_other)"

subsection \<open>Rule 3: memory management\<close>

text \<open>
  Both functions are written over the predicate they test, so that the path on which it
  holds can be stated; the program's functions call \<open>error\<close>.
\<close>

definition Rule3_Memory_unsafe_with :: "bool comp \<Rightarrow> unit comp" where
  "Rule3_Memory_unsafe_with err =
     seq new_User (\<lambda>u. seq err (\<lambda>e. if e then ret () else delete_User u))"

definition Rule3_Memory_unsafe :: "unit comp" where
  "Rule3_Memory_unsafe = Rule3_Memory_unsafe_with error"

text \<open>
  \<^verbatim>\<open>std::make_unique<User>()\<close> allocates; the destructor of the \<^verbatim>\<open>unique_ptr\<close> deletes
  what it owns when \<^verbatim>\<open>u\<close> goes out of scope.
\<close>

definition Rule3_Memory_safe_with :: "bool comp \<Rightarrow> unit comp" where
  "Rule3_Memory_safe_with err =
     seq new_User
       (\<lambda>u. at_scope_exit (seq err (\<lambda>e. if e then ret () else ret ())) (delete_User u))"

definition Rule3_Memory_safe :: "unit comp" where
  "Rule3_Memory_safe = Rule3_Memory_safe_with error"

subsection \<open>Rule 4: const correctness\<close>

text \<open>
  \<^verbatim>\<open>void print(const std::string& str) { std::cout << str; }\<close>: the parameter is a
  reference, here the address of a string object of the state.
\<close>

definition Rule4_Const_print :: "nat \<Rightarrow> unit comp" where
  "Rule4_Const_print str w = cout_write (strings w str) w"

subsection \<open>Rule 5: RAII\<close>

definition Rule5_RAII_process_data :: "unit comp" where
  "Rule5_RAII_process_data = log_call Called_process_data"

definition Rule5_RAII_bad_lock :: "unit comp" where
  "Rule5_RAII_bad_lock = seq mutex_lock (\<lambda>_. seq Rule5_RAII_process_data (\<lambda>_. mutex_unlock))"

text \<open>
  \<^verbatim>\<open>std::lock_guard<std::mutex> lk(m);\<close> locks in its constructor and unlocks in its
  destructor. The function is written over the statement it guards; the program's function
  guards \<open>Rule5_RAII_process_data\<close>.
\<close>

definition Rule5_RAII_good_lock_with :: "unit comp \<Rightarrow> unit comp" where
  "Rule5_RAII_good_lock_with body = seq mutex_lock (\<lambda>_. at_scope_exit body mutex_unlock)"

definition Rule5_RAII_good_lock :: "unit comp" where
  "Rule5_RAII_good_lock = Rule5_RAII_good_lock_with Rule5_RAII_process_data"

subsection \<open>Rule 6: error handling\<close>

definition Rule6_ErrorHandling_old_style :: "unit comp" where
  "Rule6_ErrorHandling_old_style = ret ()"

text \<open>
  \<^verbatim>\<open>try { int res = calculate(); } catch (const std::exception& e) { std::cerr << "Error: " << e.what(); }\<close>,
  written over the computation it attempts; the program's function attempts \<open>calculate\<close>.
\<close>

definition Rule6_ErrorHandling_new_style_with :: "int comp \<Rightarrow> unit comp" where
  "Rule6_ErrorHandling_new_style_with calc =
     try_catch_std_exception
       (seq calc (\<lambda>res. ret ()))
       (\<lambda>what. seq (cerr_write ''Error: '') (\<lambda>_. cerr_write what))"

definition Rule6_ErrorHandling_new_style :: "unit comp" where
  "Rule6_ErrorHandling_new_style = Rule6_ErrorHandling_new_style_with calculate"

subsection \<open>Rule 7: pass by reference\<close>

definition Rule7_Performance_process :: "int list \<Rightarrow> unit comp" where
  "Rule7_Performance_process data = ret ()"

subsection \<open>Rule 8: casting\<close>

datatype class_name = Base | Derived

definition Rule8_Casting_example :: "unit comp" where
  "Rule8_Casting_example =
     (let derived_obj = Derived;
          derived_ptr = Some derived_obj;
          b = derived_ptr
      in ret ())"

subsection \<open>Rule 9: nullptr\<close>

definition Rule9_Nullptr_example :: "unit comp" where
  "Rule9_Nullptr_example = func_overload Nullptr_literal"

subsection \<open>Rule 10: namespaces\<close>

definition Rule10_Namespaces_print :: "unit comp" where
  "Rule10_Namespaces_print = cout_write ''Hello World''"

subsection \<open>Entry point\<close>

definition main :: "int comp" where
  "main =
     seq (cout_write ''C++ Code Examples successfully compiled.'')
       (\<lambda>_. seq (cout_write endl) (\<lambda>_. ret 0))"

section \<open>Observations of a call\<close>

text \<open>
  What a call has written to standard output, and which events it has logged: the part of
  the stream (of the call log) that was not there before the call.
\<close>

definition stdout_of :: "'a comp \<Rightarrow> world \<Rightarrow> string" where
  "stdout_of c w = drop (length (cout w)) (cout (snd (c w)))"

definition calls_of :: "'a comp \<Rightarrow> world \<Rightarrow> event list" where
  "calls_of c w = drop (length (trace w)) (trace (snd (c w)))"

text \<open>
  \<open>emits c s w\<close>: called in state \<open>w\<close>, the operation \<open>c\<close> returns normally, has written
  exactly \<open>s\<close> to standard output and nothing to standard error.
\<close>

definition emits :: "unit comp \<Rightarrow> string \<Rightarrow> world \<Rightarrow> bool" where
  "emits c s w \<longleftrightarrow>
     fst (c w) = Ok () \<and> cout (snd (c w)) = cout w @ s \<and> cerr (snd (c w)) = cerr w"

text \<open>The statement \<^verbatim>\<open>throw e;\<close>, for the exceptional paths.\<close>

definition throwing :: "exn \<Rightarrow> 'a comp" where
  "throwing e w = (Throw e, w)"

section \<open>What each function does\<close>

lemma log_call_seq: "seq (log_call e) f w = f () (w\<lparr>trace := trace w @ [e]\<rparr>)"
  by (simp add: seq_def log_call_def)

lemma cout_write_seq: "seq (cout_write s) f w = f () (w\<lparr>cout := cout w @ s\<rparr>)"
  by (simp add: seq_def cout_write_def)

lemma new_User_seq:
  "seq new_User f w = f (fresh_addr (heap w)) (w\<lparr>heap := fresh_addr (heap w) # heap w\<rparr>)"
  by (simp add: seq_def new_User_def Let_def)

lemma fresh_addr_not_live: "fresh_addr as \<notin> set as"
proof
  assume "fresh_addr as \<in> set as"
  then have "fresh_addr as \<le> Max (set (0 # as))"
    by (intro Max_ge) simp_all
  then show False
    by (simp add: fresh_addr_def)
qed

lemma removeAll_fresh_addr: "removeAll (fresh_addr as) as = as"
  by (simp add: fresh_addr_not_live)

lemma error_result: "error w = (Ok False, w\<lparr>trace := trace w @ [Called_error]\<rparr>)"
  by (simp add: error_def log_call_seq ret_def)

lemma error_seq: "seq error f w = f False (w\<lparr>trace := trace w @ [Called_error]\<rparr>)"
  by (simp add: seq_def error_result)

lemma calculate_result: "calculate w = (Ok 10, w\<lparr>trace := trace w @ [Called_calculate]\<rparr>)"
  by (simp add: calculate_def log_call_seq ret_def)

lemma main_result:
  "main w = (Ok 0, w\<lparr>cout := cout w @ ''C++ Code Examples successfully compiled.'' @ [CHR 0x0A]\<rparr>)"
  by (simp add: main_def cout_write_seq ret_def endl_def)

lemma example_True: "Rule2_Structure_example True w = (Ok (), w\<lparr>trace := trace w @ [Called_func]\<rparr>)"
  by (simp add: Rule2_Structure_example_def func_def log_call_seq ret_def)

lemma example_False:
  "Rule2_Structure_example False w = (Ok (), w\<lparr>trace := trace w @ [Called_do_other]\<rparr>)"
  by (simp add: Rule2_Structure_example_def do_other_def log_call_def)

lemma unsafe_result: "Rule3_Memory_unsafe w = (Ok (), w\<lparr>trace := trace w @ [Called_error]\<rparr>)"
  by (simp add: Rule3_Memory_unsafe_def Rule3_Memory_unsafe_with_def new_User_seq error_seq
      delete_User_def removeAll_fresh_addr)

lemma unsafe_leaks_when_error:
  "Rule3_Memory_unsafe_with (ret True) w = (Ok (), w\<lparr>heap := fresh_addr (heap w) # heap w\<rparr>)"
  by (simp add: Rule3_Memory_unsafe_with_def new_User_def seq_def ret_def Let_def)

lemma safe_with_ret:
  "Rule3_Memory_safe_with (ret b) w = (Ok (), w)"
  by (simp add: Rule3_Memory_safe_with_def new_User_def Let_def at_scope_exit_def seq_def ret_def
      delete_User_def removeAll_fresh_addr)

lemma safe_with_throwing:
  "Rule3_Memory_safe_with (throwing e) w = (Throw e, w)"
  by (simp add: Rule3_Memory_safe_with_def new_User_def Let_def at_scope_exit_def seq_def
      throwing_def delete_User_def removeAll_fresh_addr)

lemma safe_result: "Rule3_Memory_safe w = (Ok (), w\<lparr>trace := trace w @ [Called_error]\<rparr>)"
  by (simp add: Rule3_Memory_safe_def Rule3_Memory_safe_with_def new_User_seq at_scope_exit_def
      error_seq ret_def delete_User_def removeAll_fresh_addr)

lemma print_result: "Rule4_Const_print str w = (Ok (), w\<lparr>cout := cout w @ strings w str\<rparr>)"
  by (simp add: Rule4_Const_print_def cout_write_def)

lemma bad_lock_result:
  "\<not> Rule5_RAII_m w \<Longrightarrow>
   Rule5_RAII_bad_lock w = (Ok (), w\<lparr>trace := trace w @ [Called_process_data]\<rparr>)"
  by (simp add: Rule5_RAII_bad_lock_def Rule5_RAII_process_data_def seq_def mutex_lock_def
      mutex_unlock_def log_call_def)

lemma good_lock_result:
  "\<not> Rule5_RAII_m w \<Longrightarrow>
   Rule5_RAII_good_lock w = (Ok (), w\<lparr>trace := trace w @ [Called_process_data]\<rparr>)"
  by (simp add: Rule5_RAII_good_lock_def Rule5_RAII_good_lock_with_def Rule5_RAII_process_data_def
      seq_def at_scope_exit_def mutex_lock_def mutex_unlock_def log_call_def)

lemma good_lock_with_exit:
  "fst (Rule5_RAII_good_lock_with body w) \<noteq> Undefined \<Longrightarrow>
   \<not> Rule5_RAII_m (snd (Rule5_RAII_good_lock_with body w))"
  by (auto simp: Rule5_RAII_good_lock_with_def seq_def at_scope_exit_def mutex_lock_def
      mutex_unlock_def split: if_splits prod.splits outcome.splits)

lemma new_style_result:
  "Rule6_ErrorHandling_new_style w = (Ok (), w\<lparr>trace := trace w @ [Called_calculate]\<rparr>)"
  by (simp add: Rule6_ErrorHandling_new_style_def Rule6_ErrorHandling_new_style_with_def
      try_catch_std_exception_def seq_def calculate_result ret_def)

lemma new_style_with_cerr:
  "cerr (snd (Rule6_ErrorHandling_new_style_with calc w)) \<noteq> cerr (snd (calc w)) \<Longrightarrow>
   \<exists>what. fst (calc w) = Throw (Std_exception what)
     \<and> cerr (snd (Rule6_ErrorHandling_new_style_with calc w)) = cerr (snd (calc w)) @ ''Error: '' @ what"
  by (auto simp: Rule6_ErrorHandling_new_style_with_def try_catch_std_exception_def seq_def
      cerr_write_def ret_def split: prod.splits outcome.splits exn.splits)

lemma viable_nullptr: "viable_candidates Nullptr_literal = [Overload_char_ptr]"
  by (simp add: viable_candidates_def func_overload_candidates_def is_viable_def
      implicit_conversion_def)

lemma best_viable_nullptr: "best_viable_function Nullptr_literal = Some Overload_char_ptr"
  by (simp add: best_viable_function_def viable_nullptr beats_all_others_def)

lemma viable_zero_literal: "viable_candidates Zero_literal = [Overload_int, Overload_char_ptr]"
  by (simp add: viable_candidates_def func_overload_candidates_def is_viable_def
      implicit_conversion_def)

lemma best_viable_zero_literal: "best_viable_function Zero_literal = Some Overload_int"
  by (simp add: best_viable_function_def viable_zero_literal beats_all_others_def
      better_function_def implicit_conversion_def)

lemma best_viable_int: "best_viable_function (Int_arg n) = Some Overload_int"
  by (simp add: best_viable_function_def viable_candidates_def func_overload_candidates_def
      is_viable_def beats_all_others_def implicit_conversion_def)

lemma best_viable_char_ptr: "best_viable_function (Char_ptr_arg p) = Some Overload_char_ptr"
  by (simp add: best_viable_function_def viable_candidates_def func_overload_candidates_def
      is_viable_def beats_all_others_def implicit_conversion_def)

lemma example9_result:
  "Rule9_Nullptr_example w =
     (Ok (), w\<lparr>trace := trace w @ [Called_func_overload_char_ptr],
               cout := cout w @ ''Called func(char*)'' @ [CHR 0x0A]\<rparr>)"
  by (simp add: Rule9_Nullptr_example_def func_overload_def best_viable_nullptr
      func_overload_char_ptr_def log_call_seq cout_write_def)

lemma func_overload_int_result:
  "func_overload_int n w =
     (Ok (), w\<lparr>trace := trace w @ [Called_func_overload_int],
               cout := cout w @ ''Called func(int)'' @ [CHR 0x0A]\<rparr>)"
  by (simp add: func_overload_int_def log_call_seq cout_write_def)

section \<open>The entry point\<close>

text \<open>
  C1. Running \<open>main\<close> returns 0, appends exactly the line
  "C++ Code Examples successfully compiled." and a newline to standard output, and writes
  nothing to standard error; started from the initial state, standard output holds that one
  line and standard error is empty.
\<close>

theorem main_writes_banner:
  "fst (main w) = Ok 0
   \<and> cout (snd (main w)) = cout w @ ''C++ Code Examples successfully compiled.'' @ [CHR 0x0A]
   \<and> cerr (snd (main w)) = cerr w
   \<and> cout (snd (main initial_world)) = ''C++ Code Examples successfully compiled.'' @ [CHR 0x0A]
   \<and> cerr (snd (main initial_world)) = []"
  by (simp add: main_result initial_world_def)

text \<open>
  C9. Two runs of \<open>main\<close>, from any two states, write the same bytes to standard output (and
  return the same value): the output does not depend on the state in which the program is
  started.
\<close>

theorem main_deterministic:
  "stdout_of main w1 = stdout_of main w2 \<and> fst (main w1) = fst (main w2)"
  by (simp add: stdout_of_def main_result)

section \<open>Isolated calls of the illustrative operations\<close>

text \<open>
  C2, as the specification states it, fails: called from the initial state,
  \<open>Rule9_Nullptr_example\<close> writes "Called func(char*)" and a newline to standard output, so
  it is not silent, and \<open>Rule4_Const_print\<close> writes the string its argument designates.
\<close>

theorem isolation_silent_counterexample:
  "cout (snd (Rule9_Nullptr_example initial_world)) = ''Called func(char*)'' @ [CHR 0x0A]
   \<and> \<not> emits Rule9_Nullptr_example [] initial_world
   \<and> cout (snd (Rule4_Const_print 0 (initial_world\<lparr>strings := (strings initial_world)(0 := ''text'')\<rparr>)))
       = ''text''
   \<and> \<not> emits (Rule4_Const_print 0) []
         (initial_world\<lparr>strings := (strings initial_world)(0 := ''text'')\<rparr>)"
  by (simp add: emits_def example9_result print_result initial_world_def)

text \<open>
  C2, amended. Called in any state in which the mutex \<open>m\<close> is not held (as at program start),
  every operation of the ten rules returns normally and writes nothing to standard error; on
  standard output \<open>Rule10_Namespaces_print\<close> writes "Hello World", \<open>Rule9_Nullptr_example\<close>
  writes "Called func(char*)" and a newline, \<open>Rule4_Const_print\<close> writes the string its
  argument designates, and every other operation writes nothing.
\<close>

theorem isolation_outputs:
  assumes "\<not> Rule5_RAII_m w"
  shows "emits (Rule2_Structure_example x) [] w
   \<and> emits Rule3_Memory_unsafe [] w
   \<and> emits Rule3_Memory_safe [] w
   \<and> emits (Rule4_Const_print str) (strings w str) w
   \<and> emits Rule5_RAII_bad_lock [] w
   \<and> emits Rule5_RAII_good_lock [] w
   \<and> emits Rule6_ErrorHandling_old_style [] w
   \<and> emits Rule6_ErrorHandling_new_style [] w
   \<and> emits (Rule7_Performance_process data) [] w
   \<and> emits Rule8_Casting_example [] w
   \<and> emits Rule9_Nullptr_example (''Called func(char*)'' @ [CHR 0x0A]) w
   \<and> emits Rule10_Namespaces_print ''Hello World'' w"
proof -
  have "emits (Rule2_Structure_example x) [] w"
    by (cases x) (simp_all add: emits_def example_True example_False)
  moreover have "emits Rule3_Memory_unsafe [] w" "emits Rule3_Memory_safe [] w"
    by (simp_all add: emits_def unsafe_result safe_result)
  moreover have "emits (Rule4_Const_print str) (strings w str) w"
    by (simp add: emits_def print_result)
  moreover have "emits Rule5_RAII_bad_lock [] w" "emits Rule5_RAII_good_lock [] w"
    using assms by (simp_all add: emits_def bad_lock_result good_lock_result)
  moreover have "emits Rule6_ErrorHandling_old_style [] w"
    "emits Rule6_ErrorHandling_new_style [] w"
    by (simp_all add: emits_def Rule6_ErrorHandling_old_style_def ret_def new_style_result)
  moreover have "emits (Rule7_Performance_process data) [] w" "emits Rule8_Casting_example [] w"
    by (simp_all add: emits_def Rule7_Performance_process_def Rule8_Casting_example_def ret_def)
  moreover have "emits Rule9_Nullptr_example (''Called func(char*)'' @ [CHR 0x0A]) w"
    by (simp add: emits_def example9_result)
  moreover have "emits Rule10_Namespaces_print ''Hello World'' w"
    by (simp add: emits_def Rule10_Namespaces_print_def cout_write_def)
  ultimately show ?thesis
    by simp
qed

theorem isolation_outputs_witness:
  "\<not> Rule5_RAII_m initial_world
   \<and> emits (Rule2_Structure_example True) [] initial_world
   \<and> emits Rule3_Memory_unsafe [] initial_world
   \<and> emits Rule3_Memory_safe [] initial_world
   \<and> emits (Rule4_Const_print 0) (strings initial_world 0) initial_world
   \<and> emits Rule5_RAII_bad_lock [] initial_world
   \<and> emits Rule5_RAII_good_lock [] initial_world
   \<and> emits Rule6_ErrorHandling_old_style [] initial_world
   \<and> emits Rule6_ErrorHandling_new_style [] initial_world
   \<and> emits (Rule7_Performance_process [1, 2]) [] initial_world
   \<and> emits Rule8_Casting_example [] initial_world
   \<and> emits Rule9_Nullptr_example (''Called func(char*)'' @ [CHR 0x0A]) initial_world
   \<and> emits Rule10_Namespaces_print ''Hello World'' initial_world"
proof -
  have h: "\<not> Rule5_RAII_m initial_world"
    by (simp add: initial_world_def)
  show ?thesis
    using h isolation_outputs [OF h, where x = True and str = 0 and data = "[1, 2]"]
    by simp
qed

section \<open>Rule 2: one branch, one call\<close>

text \<open>
  C8. \<open>Rule2_Structure_example True\<close> calls \<open>func\<close> and returns, \<open>Rule2_Structure_example False\<close>
  calls \<open>do_other\<close> and returns; in either case this is the only call made and nothing else
  of the state changes, so no call of the function invokes both.
\<close>

theorem example_calls_one_branch:
  "Rule2_Structure_example True w = (Ok (), w\<lparr>trace := trace w @ [Called_func]\<rparr>)
   \<and> Rule2_Structure_example False w = (Ok (), w\<lparr>trace := trace w @ [Called_do_other]\<rparr>)
   \<and> calls_of (Rule2_Structure_example True) w = [Called_func]
   \<and> calls_of (Rule2_Structure_example False) w = [Called_do_other]"
  by (simp add: example_True example_False calls_of_def)

section \<open>Rule 3: the owned User\<close>

text \<open>
  C4. \<open>Rule3_Memory_safe\<close> returns with the free store as it found it, whatever the tested
  predicate answers: on the early return (the predicate answers true), on falling off the end
  (it answers false, as \<open>error\<close> does) and when the predicate throws; called from the initial
  state it leaves nothing allocated.
\<close>

theorem safe_releases_on_every_path:
  "fst (Rule3_Memory_safe_with (ret b) w) = Ok ()
   \<and> heap (snd (Rule3_Memory_safe_with (ret b) w)) = heap w
   \<and> heap (snd (Rule3_Memory_safe_with (throwing e) w)) = heap w
   \<and> fst (Rule3_Memory_safe w) = Ok ()
   \<and> heap (snd (Rule3_Memory_safe w)) = heap w
   \<and> heap (snd (Rule3_Memory_safe initial_world)) = []"
  by (simp add: safe_with_ret safe_with_throwing safe_result initial_world_def)

text \<open>
  C10. \<open>error\<close> returns false in every state, so \<open>Rule3_Memory_unsafe\<close> always runs on to its
  \<^verbatim>\<open>delete\<close>: it is the sequence allocate, test, delete, it returns normally and it leaves
  the free store as it found it.
\<close>

theorem unsafe_never_leaks:
  "fst (error w) = Ok False
   \<and> Rule3_Memory_unsafe w = seq new_User (\<lambda>u. seq error (\<lambda>e. delete_User u)) w
   \<and> fst (Rule3_Memory_unsafe w) = Ok ()
   \<and> heap (snd (Rule3_Memory_unsafe w)) = heap w
   \<and> heap (snd (Rule3_Memory_unsafe initial_world)) = []"
  by (simp add: error_result unsafe_result new_User_seq error_seq delete_User_def
      removeAll_fresh_addr initial_world_def)

section \<open>Rule 4: the printed string\<close>

text \<open>
  C7. \<open>Rule4_Const_print\<close> returns normally and changes no string object: whatever string \<open>s\<close>
  its argument designates before the call, the argument designates \<open>s\<close> after it.
\<close>

theorem print_keeps_argument:
  "fst (Rule4_Const_print str w) = Ok ()
   \<and> strings (snd (Rule4_Const_print str w)) = strings w
   \<and> strings (snd (Rule4_Const_print str (w\<lparr>strings := (strings w)(str := s)\<rparr>))) str = s"
  by (simp add: print_result)

section \<open>Rule 5: the guarded mutex\<close>

text \<open>
  C6. Called with the mutex free, \<open>Rule5_RAII_good_lock\<close> returns normally and the mutex is
  free again. Whatever the guarded statement does, whenever the function is left, by a
  normal return or by an exception, the mutex is free.
\<close>

theorem good_lock_releases:
  "(\<not> Rule5_RAII_m w \<longrightarrow>
      fst (Rule5_RAII_good_lock w) = Ok () \<and> \<not> Rule5_RAII_m (snd (Rule5_RAII_good_lock w)))
   \<and> (fst (Rule5_RAII_good_lock_with body w) \<noteq> Undefined \<longrightarrow>
      \<not> Rule5_RAII_m (snd (Rule5_RAII_good_lock_with body w)))"
  by (simp add: good_lock_result good_lock_with_exit)

theorem good_lock_releases_witness:
  "\<not> Rule5_RAII_m initial_world
   \<and> fst (Rule5_RAII_good_lock initial_world) = Ok ()
   \<and> \<not> Rule5_RAII_m (snd (Rule5_RAII_good_lock initial_world))
   \<and> fst (Rule5_RAII_good_lock_with (throwing Foreign_exception) initial_world) \<noteq> Undefined
   \<and> \<not> Rule5_RAII_m (snd (Rule5_RAII_good_lock_with (throwing Foreign_exception) initial_world))"
proof -
  have h: "\<not> Rule5_RAII_m initial_world"
    by (simp add: initial_world_def)
  have t: "fst (Rule5_RAII_good_lock_with (throwing Foreign_exception) initial_world) \<noteq> Undefined"
    by (simp add: Rule5_RAII_good_lock_with_def seq_def at_scope_exit_def mutex_lock_def
        mutex_unlock_def throwing_def initial_world_def)
  show ?thesis
    using h t good_lock_releases [of initial_world "throwing Foreign_exception"]
    by simp
qed

section \<open>Rule 6: the handler that is never entered\<close>

text \<open>
  C3. \<open>calculate\<close> returns 10 and throws nothing, so \<open>Rule6_ErrorHandling_new_style\<close> returns
  normally, its only logged event is the call of \<open>calculate\<close> (the handler is not entered) and
  standard error is unchanged. For any attempted computation in its place, standard error
  after the function differs from standard error after the computation only if the
  computation threw a \<^verbatim>\<open>std::exception\<close>, and then by "Error: " followed by its message.
\<close>

theorem new_style_catches_nothing:
  "calculate w = (Ok 10, w\<lparr>trace := trace w @ [Called_calculate]\<rparr>)
   \<and> fst (Rule6_ErrorHandling_new_style w) = Ok ()
   \<and> calls_of Rule6_ErrorHandling_new_style w = [Called_calculate]
   \<and> cerr (snd (Rule6_ErrorHandling_new_style w)) = cerr w
   \<and> (cerr (snd (Rule6_ErrorHandling_new_style_with calc w)) \<noteq> cerr (snd (calc w)) \<longrightarrow>
       (\<exists>what. fst (calc w) = Throw (Std_exception what)
          \<and> cerr (snd (Rule6_ErrorHandling_new_style_with calc w))
              = cerr (snd (calc w)) @ ''Error: '' @ what))"
  using new_style_with_cerr [of calc w]
  by (simp add: calculate_result new_style_result calls_of_def)

theorem new_style_catches_nothing_witness:
  "cerr (snd (Rule6_ErrorHandling_new_style_with (throwing (Std_exception ''failure'')) initial_world))
     \<noteq> cerr (snd (throwing (Std_exception ''failure'') initial_world))
   \<and> fst (throwing (Std_exception ''failure'') initial_world) = Throw (Std_exception ''failure'')
   \<and> cerr (snd (Rule6_ErrorHandling_new_style_with (throwing (Std_exception ''failure'')) initial_world))
       = ''Error: failure''"
  using new_style_catches_nothing [of initial_world "throwing (Std_exception ''failure'')"]
  by (simp add: Rule6_ErrorHandling_new_style_with_def try_catch_std_exception_def seq_def
      cerr_write_def throwing_def initial_world_def)

section \<open>Rule 9: the overload that is called\<close>

text \<open>
  C5. For the argument \<^verbatim>\<open>nullptr\<close> of the call in \<open>Rule9_Nullptr_example\<close>, there is no
  implicit conversion to the parameter type \<^verbatim>\<open>int\<close> and there is one to \<^verbatim>\<open>char*\<close>, so of
  the two declared candidates only the \<^verbatim>\<open>char*\<close> overload is viable and it is the function
  the call names. Accordingly the call runs the \<^verbatim>\<open>char*\<close> overload on the null pointer: it
  logs that overload and writes "Called func(char*)", and it is not a call of the integer
  overload, whatever the integer.
\<close>

theorem example_selects_char_ptr_overload:
  "implicit_conversion Nullptr_literal (parameter_type Overload_int) = None
   \<and> implicit_conversion Nullptr_literal (parameter_type Overload_char_ptr) = Some Conversion
   \<and> viable_candidates Nullptr_literal = [Overload_char_ptr]
   \<and> best_viable_function Nullptr_literal = Some Overload_char_ptr
   \<and> Rule9_Nullptr_example w = func_overload_char_ptr None w
   \<and> calls_of Rule9_Nullptr_example w = [Called_func_overload_char_ptr]
   \<and> stdout_of Rule9_Nullptr_example w = ''Called func(char*)'' @ [CHR 0x0A]
   \<and> Rule9_Nullptr_example w \<noteq> func_overload_int n w"
proof -
  have "implicit_conversion Nullptr_literal (parameter_type Overload_int) = None"
    "implicit_conversion Nullptr_literal (parameter_type Overload_char_ptr) = Some Conversion"
    by (simp_all add: implicit_conversion_def)
  moreover have "Rule9_Nullptr_example w = func_overload_char_ptr None w"
    by (simp add: Rule9_Nullptr_example_def func_overload_def best_viable_nullptr)
  moreover have "calls_of Rule9_Nullptr_example w = [Called_func_overload_char_ptr]"
    by (simp add: calls_of_def example9_result)
  moreover have "stdout_of Rule9_Nullptr_example w = ''Called func(char*)'' @ [CHR 0x0A]"
    by (simp add: stdout_of_def example9_result)
  moreover have "Rule9_Nullptr_example w \<noteq> func_overload_int n w"
  proof
    assume "Rule9_Nullptr_example w = func_overload_int n w"
    then have "trace (snd (Rule9_Nullptr_example w)) = trace (snd (func_overload_int n w))"
      by simp
    then show False
      by (simp add: example9_result func_overload_int_result)
  qed
  ultimately show ?thesis
    by (simp add: viable_nullptr best_viable_nullptr)
qed

end
